theory Spec2Isabelle
  imports Main "HOL-Library.Word" "HOL-Library.Signed_Division"
begin

section \<open>StartStopTimer: data model\<close>

text \<open>
  \<^verbatim>\<open>time_t\<close> is a signed integer type whose width the platform headers fix; it is taken
  as \<open>int\<close>, so a subtraction of two time stamps never overflows (an overflow would be
  undefined in C). The two \<^verbatim>\<open>uint32_t\<close> fields are 32-bit words. A task handle is an
  opaque reference, \<^verbatim>\<open>nullptr\<close> being \<open>None\<close>.

  A callback is an opaque \<^verbatim>\<open>void(*)()\<close>. All the timer can observe of it is that it was
  called and how long the call blocked, so a callback is represented by the milliseconds
  one invocation takes (\<^verbatim>\<open>showTime\<close> and \<^verbatim>\<open>takePhoto\<close> take none, \<^verbatim>\<open>blinkLed\<close> sleeps 10 ms).
\<close>

type_synonym time_t = int
type_synonym TaskHandle_t = "nat option"

datatype Callback = Callback nat

record TaskParams =
  tStart :: time_t
  tStop :: time_t
  tInterval :: time_t
  intervalMultiplier :: "32 word"
  tCyclePeriod :: time_t
  nbrOfCycles :: "32 word"
  tskHandle :: TaskHandle_t
  callback :: "Callback option"

text \<open>
  \<^verbatim>\<open>int\<close> has 32 bits on the target. A variable of that type is kept as an integer of
  that range, and the result of every operation on \<^verbatim>\<open>int\<close> is brought back into the
  range by \<open>i32\<close>, two's complement wrap-around (an overflow is undefined in C; the
  target wraps).
\<close>

definition i32 :: "int \<Rightarrow> int" where
  "i32 x = sint (word_of_int x :: 32 word)"

text \<open>The member initialiser \<^verbatim>\<open>_tskParams = { 0, 0, 1, 1000, 86400, 1, nullptr, nullptr }\<close>.\<close>

definition tskParams_init :: TaskParams where
  "tskParams_init =
     \<lparr>tStart = 0, tStop = 0, tInterval = 1, intervalMultiplier = 1000,
      tCyclePeriod = 86400, nbrOfCycles = 1, tskHandle = None, callback = None\<rparr>"

text \<open>The setters are plain assignments.\<close>

definition setCycleStart :: "time_t \<Rightarrow> TaskParams \<Rightarrow> TaskParams" where
  "setCycleStart tsecStart p = p\<lparr>tStart := tsecStart\<rparr>"

definition setCycleStop :: "time_t \<Rightarrow> TaskParams \<Rightarrow> TaskParams" where
  "setCycleStop tsecStop p = p\<lparr>tStop := tsecStop\<rparr>"

definition setTaskInterval :: "time_t \<Rightarrow> TaskParams \<Rightarrow> TaskParams" where
  "setTaskInterval tsecInterval p = p\<lparr>tInterval := tsecInterval\<rparr>"

definition setCyclePeriod :: "time_t \<Rightarrow> TaskParams \<Rightarrow> TaskParams" where
  "setCyclePeriod tsecPeriod p = p\<lparr>tCyclePeriod := tsecPeriod\<rparr>"

definition setNbrOfCycles :: "32 word \<Rightarrow> TaskParams \<Rightarrow> TaskParams" where
  "setNbrOfCycles n p = p\<lparr>nbrOfCycles := n\<rparr>"

definition setIntervalMultiplier :: "32 word \<Rightarrow> TaskParams \<Rightarrow> TaskParams" where
  "setIntervalMultiplier factor p = p\<lparr>intervalMultiplier := factor\<rparr>"

section \<open>Text scanning (\<^verbatim>\<open>sscanf\<close>)\<close>

text \<open>
  \<^verbatim>\<open>sscanf\<close> belongs to the C library. The two formats the timer uses consist of \<^verbatim>\<open>%d\<close>
  conversions, literal characters and one blank, so a format is a list of such
  directives. \<^verbatim>\<open>%d\<close> skips white space, takes an optional sign and then at least one
  decimal digit, and stores the number in an \<^verbatim>\<open>int\<close>; a literal must be the next
  character; a blank in the format skips any white space. Scanning stops at the first
  directive that fails, and the result is the list of the values converted up to there:
  a variable whose conversion was not reached keeps the value it had.

  The library converts the digits as \<^verbatim>\<open>strtol\<close> does, to a \<^verbatim>\<open>long\<close>, a number beyond
  whose range becomes its largest or least value, and the store into the \<^verbatim>\<open>int\<close>
  keeps the low 32 bits. The width of \<^verbatim>\<open>long\<close> is the platform's: 64 bits are taken
  here, so that 4294967297 is stored as 1; with a \<^verbatim>\<open>long\<close> of 32 bits the conversion
  stops at the bounds of \<^verbatim>\<open>int\<close> instead. The two agree on every number within the
  range of \<^verbatim>\<open>int\<close>, and the statements on digit strings below are about those.
\<close>

definition strtol_range :: "int \<Rightarrow> int" where
  "strtol_range x = max (- 9223372036854775808) (min 9223372036854775807 x)"

datatype directive = Conv_d | Lit char | White

definition isspace :: "char \<Rightarrow> bool" where
  "isspace c = ((of_char c :: nat) = 32 \<or> (9 \<le> (of_char c :: nat) \<and> (of_char c :: nat) \<le> 13))"

definition isdigit :: "char \<Rightarrow> bool" where
  "isdigit c = (48 \<le> (of_char c :: nat) \<and> (of_char c :: nat) \<le> 57)"

fun scan_digits :: "int \<Rightarrow> string \<Rightarrow> int \<times> string" where
  "scan_digits acc [] = (acc, [])"
| "scan_digits acc (c # cs) =
     (if isdigit c then scan_digits (10 * acc + (of_char c - 48)) cs else (acc, c # cs))"

definition scan_d :: "string \<Rightarrow> (int \<times> string) option" where
  "scan_d s =
     (let s1 = dropWhile isspace s;
          (sg, s2) = (case s1 of
                        [] \<Rightarrow> (1, [])
                      | c # cs \<Rightarrow> if c = CHR ''-'' then (- 1, cs)
                                  else if c = CHR ''+'' then (1, cs) else (1, s1))
      in case s2 of
           [] \<Rightarrow> None
         | d # _ \<Rightarrow> if isdigit d
                    then (case scan_digits 0 s2 of (v, r) \<Rightarrow> Some (i32 (strtol_range (sg * v)), r))
                    else None)"

fun sscanf :: "string \<Rightarrow> directive list \<Rightarrow> int list" where
  "sscanf s [] = []"
| "sscanf s (Conv_d # fs) =
     (case scan_d s of None \<Rightarrow> [] | Some (v, r) \<Rightarrow> v # sscanf r fs)"
| "sscanf s (Lit c # fs) =
     (case s of [] \<Rightarrow> [] | x # r \<Rightarrow> if x = c then sscanf r fs else [])"
| "sscanf s (White # fs) = sscanf (dropWhile isspace s) fs"

text \<open>The value of the \<open>i\<close>-th argument after the call: converted, or left as it was.\<close>

definition assigned :: "int list \<Rightarrow> nat \<Rightarrow> int \<Rightarrow> int" where
  "assigned vs i old = (if i < length vs then vs ! i else old)"

text \<open>\<^verbatim>\<open>"%d:%d"\<close> and \<^verbatim>\<open>"%d-%d-%d %d:%d"\<close>.\<close>

definition fmt_interval :: "directive list" where
  "fmt_interval = [Conv_d, Lit (CHR '':''), Conv_d]"

definition fmt_datetime :: "directive list" where
  "fmt_datetime =
     [Conv_d, Lit (CHR ''-''), Conv_d, Lit (CHR ''-''), Conv_d, White,
      Conv_d, Lit (CHR '':''), Conv_d]"




section \<open>Calendar time\<close>

record tm =
  tm_sec :: int
  tm_min :: int
  tm_hour :: int
  tm_mday :: int
  tm_mon :: int
  tm_year :: int
  tm_wday :: int
  tm_yday :: int
  tm_isdst :: int

text \<open>\<^verbatim>\<open>tm td = {0}\<close>.\<close>

definition tm_zero :: tm where
  "tm_zero = \<lparr>tm_sec = 0, tm_min = 0, tm_hour = 0, tm_mday = 0, tm_mon = 0, tm_year = 0,
              tm_wday = 0, tm_yday = 0, tm_isdst = 0\<rparr>"

text \<open>
  \<^verbatim>\<open>sscanf(text, "%d-%d-%d %d:%d", &td.tm_year, &td.tm_mon, &td.tm_mday, &td.tm_hour,
  &td.tm_min)\<close> followed by the three adjustments of the source.
\<close>

definition scan_datetime :: "string \<Rightarrow> tm \<Rightarrow> tm" where
  "scan_datetime text td =
     (let vs = sscanf text fmt_datetime;
          td = td\<lparr>tm_year := assigned vs 0 (tm_year td),
                  tm_mon := assigned vs 1 (tm_mon td),
                  tm_mday := assigned vs 2 (tm_mday td),
                  tm_hour := assigned vs 3 (tm_hour td),
                  tm_min := assigned vs 4 (tm_min td)\<rparr>;
          td = td\<lparr>tm_year := i32 (tm_year td - 1900)\<rparr>;
          td = td\<lparr>tm_mon := i32 (tm_mon td - 1)\<rparr>;
          td = td\<lparr>tm_isdst := - 1\<rparr>
      in td)"

text \<open>
  \<^verbatim>\<open>mktime\<close> belongs to the C library and depends on the time zone in force, so
  \<open>setCycleStartStop\<close> takes it as a parameter: a function from the broken-down time
  to the time stamp and the normalised structure it writes back.

  \<open>mktime_zone off\<close> is the conversion for a zone that is \<open>off\<close> seconds east of UTC
  throughout (7200 for the CEST of the source's comment), by the usual day count of the
  proleptic Gregorian calendar: the seconds of the local calendar time, less the offset,
  and the structure normalised from those seconds.
\<close>

definition days_from_civil :: "int \<Rightarrow> int \<Rightarrow> int \<Rightarrow> int" where
  "days_from_civil y m d =
     (let y1 = (if m \<le> 2 then y - 1 else y);
          era = y1 div 400;
          yoe = y1 - era * 400;
          mp = (m + 9) mod 12;
          doy = (153 * mp + 2) div 5 + d - 1;
          doe = yoe * 365 + yoe div 4 - yoe div 100 + doy
      in era * 146097 + doe - 719468)"

definition civil_from_days :: "int \<Rightarrow> int \<times> int \<times> int" where
  "civil_from_days z =
     (let z1 = z + 719468;
          era = z1 div 146097;
          doe = z1 - era * 146097;
          yoe = (doe - doe div 1460 + doe div 36524 - doe div 146096) div 365;
          doy = doe - (365 * yoe + yoe div 4 - yoe div 100);
          mp = (5 * doy + 2) div 153;
          d = doy - (153 * mp + 2) div 5 + 1;
          m = (if mp < 10 then mp + 3 else mp - 9);
          y = yoe + era * 400
      in (if m \<le> 2 then y + 1 else y, m, d))"

definition local_seconds :: "tm \<Rightarrow> int" where
  "local_seconds td =
     (let y = tm_year td + 1900 + tm_mon td div 12;
          m = tm_mon td mod 12 + 1
      in (days_from_civil y m 1 + (tm_mday td - 1)) * 86400
         + tm_hour td * 3600 + tm_min td * 60 + tm_sec td)"

definition tm_of_local :: "int \<Rightarrow> tm" where
  "tm_of_local local =
     (let day = local div 86400;
          r = local mod 86400
      in case civil_from_days day of
           (Y, M, D) \<Rightarrow>
             \<lparr>tm_sec = r mod 60, tm_min = r div 60 mod 60, tm_hour = r div 3600,
              tm_mday = D, tm_mon = M - 1, tm_year = Y - 1900,
              tm_wday = (day + 4) mod 7, tm_yday = day - days_from_civil Y 1 1,
              tm_isdst = 0\<rparr>)"

definition mktime_zone :: "int \<Rightarrow> tm \<Rightarrow> time_t \<times> tm" where
  "mktime_zone off td = (local_seconds td - off, tm_of_local (local_seconds td))"

section \<open>\<^verbatim>\<open>setCycleStartStop\<close>\<close>

text \<open>
  \<^verbatim>\<open>tskHH\<close> and \<^verbatim>\<open>tskMM\<close> are declared without an initialiser. Where \<^verbatim>\<open>sscanf\<close> writes
  both, their previous contents play no part. Where it does not, the source reads an
  uninitialised variable, which C leaves undefined: the model lets the call go on with
  arbitrary contents \<open>hh0\<close> and \<open>mm0\<close>, and nothing below says what the interval then
  is. The result of \<^verbatim>\<open>sscanf\<close> is not looked at, the function returns \<^verbatim>\<open>void\<close>, and the
  logging calls do not change the parameters. The interval is computed in \<^verbatim>\<open>int\<close> and
  then converted to \<^verbatim>\<open>time_t\<close>. The quotient is C's, truncated towards zero
  (\<open>sdiv\<close>), and the assignment to the \<^verbatim>\<open>uint32_t\<close> field reduces it modulo \<open>2 ^ 32\<close>.
\<close>

definition setCycleStartStop ::
  "(tm \<Rightarrow> time_t \<times> tm) \<Rightarrow> int \<Rightarrow> int \<Rightarrow> string \<Rightarrow> string \<Rightarrow> string
   \<Rightarrow> TaskParams \<Rightarrow> TaskParams" where
  "setCycleStartStop mktime hh0 mm0 startDateTime stopDateTime taskInterval p =
     (let td = tm_zero;
          vs = sscanf taskInterval fmt_interval;
          tskHH = assigned vs 0 hh0;
          tskMM = assigned vs 1 mm0;
          p = p\<lparr>tInterval := i32 (60 * i32 (i32 (60 * tskHH) + tskMM))\<rparr>;
          td = scan_datetime startDateTime td;
          (t, td) = mktime td;
          p = p\<lparr>tStart := t\<rparr>;
          td = scan_datetime stopDateTime td;
          (t, td) = mktime td;
          p = p\<lparr>tStop := t\<rparr>;
          p = p\<lparr>tCyclePeriod := 86400\<rparr>;
          p = p\<lparr>nbrOfCycles := word_of_int (1 + (tStop p - tStart p) sdiv tCyclePeriod p)\<rparr>
      in p)"

section \<open>The host: wall clock, delay, callback, task deletion\<close>

text \<open>
  The task function runs against a wall clock, a blocking delay and the host's task
  deletion, none of which is part of the repository. The state it works on is the
  parameter block \<^verbatim>\<open>*p\<close> together with what the host lets one observe: the clock, in
  milliseconds since the epoch, the number of callback invocations so far, the
  durations requested of the delay, in order, and the handles passed to
  \<^verbatim>\<open>vTaskDelete\<close>, each with the reading of the clock at the call, in order.

  Time passes only inside a delay and inside the callback; the statements of the task
  function themselves take no time, and nothing but the task function writes \<^verbatim>\<open>*p\<close>.
\<close>

record world =
  clock :: int
  tp :: TaskParams
  calls :: nat
  sleeps :: "int list"
  deleted :: "(TaskHandle_t \<times> int) list"

text \<open>
  Modelled from the spec: the wall clock collaborator, \<^verbatim>\<open>now()\<close>, returns the epoch
  seconds as an integer (\<^verbatim>\<open>time(nullptr)\<close> in the source).
\<close>

definition time_now :: "world \<Rightarrow> time_t" where
  "time_now w = clock w div 1000"

text \<open>
  Modelled from the spec: the delay collaborator, \<^verbatim>\<open>sleep(durationMillis)\<close>, blocks the
  calling unit for the duration given in milliseconds
  (\<^verbatim>\<open>vTaskDelay(pdMS_TO_TICKS(ms))\<close> in the source; the macro \<^verbatim>\<open>pdMS_TO_TICKS\<close> and the
  tick rate are the host's). The duration is taken exactly; a negative request, on
  which the spec is silent, lets no time pass.
\<close>

definition vTaskDelay_ms :: "int \<Rightarrow> world \<Rightarrow> world" where
  "vTaskDelay_ms ms w = w\<lparr>clock := clock w + max 0 ms, sleeps := sleeps w @ [ms]\<rparr>"

text \<open>
  Modelled from the spec: the callback is invoked synchronously, and the time it blocks
  counts against the window.
\<close>

definition invoke :: "Callback \<Rightarrow> world \<Rightarrow> world" where
  "invoke cb w = (case cb of Callback d \<Rightarrow> w\<lparr>clock := clock w + int d, calls := Suc (calls w)\<rparr>)"

text \<open>
  Modelled from the spec: the execution-unit collaborator's \<^verbatim>\<open>delete(handle)\<close>. The call
  is recorded, with the time at which it is made, and control comes back to the
  statement that follows it in the source.
\<close>

definition vTaskDelete :: "TaskHandle_t \<Rightarrow> world \<Rightarrow> world" where
  "vTaskDelete h w = w\<lparr>deleted := deleted w @ [(h, clock w)]\<rparr>"

section \<open>\<^verbatim>\<open>_taskFunction\<close>\<close>

text \<open>Calling through a null function pointer does not return: it is a fault.\<close>

datatype fault = NullCallback

text \<open>
  \<^verbatim>\<open>while (p->tStart > time(nullptr)) { vTaskDelay(pdMS_TO_TICKS(10)); }\<close>
  Every round moves the clock on by 10 ms, so the loop ends.
\<close>

function wait_phase :: "world \<Rightarrow> world" where
  "wait_phase w =
     (if tStart (tp w) > time_now w then wait_phase (vTaskDelay_ms 10 w) else w)"
  by pat_completeness auto
termination
  by (relation "measure (\<lambda>w. nat (1000 * tStart (tp w) - clock w))")
     (auto simp: time_now_def vTaskDelay_ms_def)

text \<open>
  \<^verbatim>\<open>while (time(nullptr) < p->tStop) { p->callback();
  vTaskDelay(pdMS_TO_TICKS(p->intervalMultiplier * p->tInterval)); }\<close>
  The product of the \<^verbatim>\<open>uint32_t\<close> and the \<^verbatim>\<open>time_t\<close> is taken in the integers. This
  loop need not end (\<open>None\<close>): with a product of 0 and a callback that takes no time
  the clock stands still.
\<close>

partial_function (option) active_phase :: "world \<Rightarrow> (fault + world) option" where
  "active_phase w =
     (if time_now w < tStop (tp w) then
        (case callback (tp w) of
           None \<Rightarrow> Some (Inl NullCallback)
         | Some cb \<Rightarrow>
             active_phase
               (vTaskDelay_ms (uint (intervalMultiplier (tp w)) * tInterval (tp w))
                  (invoke cb w)))
      else Some (Inr w))"

text \<open>
  The same loop, left after \<open>n\<close> rounds at the latest: the state in which the loop
  condition is evaluated for the \<open>(n + 1)\<close>-th time, or the state in which the loop has
  ended before. It shows what the loop has done so far, also where it goes on for ever.
\<close>

fun active_rounds :: "nat \<Rightarrow> world \<Rightarrow> fault + world" where
  "active_rounds 0 w = Inr w"
| "active_rounds (Suc n) w =
     (if time_now w < tStop (tp w) then
        (case callback (tp w) of
           None \<Rightarrow> Inl NullCallback
         | Some cb \<Rightarrow>
             active_rounds n
               (vTaskDelay_ms (uint (intervalMultiplier (tp w)) * tInterval (tp w))
                  (invoke cb w)))
      else Inr w)"

text \<open>The body of the \<^verbatim>\<open>for\<close> loop: one cycle.\<close>

definition cycle_body :: "world \<Rightarrow> (fault + world) option" where
  "cycle_body w =
     (let w = wait_phase w;
          w = w\<lparr>tp := (tp w)\<lparr>tStart := time_now w\<rparr>\<rparr>
      in case active_phase w of
           None \<Rightarrow> None
         | Some (Inl e) \<Rightarrow> Some (Inl e)
         | Some (Inr w) \<Rightarrow>
             (let w = w\<lparr>tp := (tp w)\<lparr>tStart := tStart (tp w) + tCyclePeriod (tp w)\<rparr>\<rparr>;
                  w = w\<lparr>tp := (tp w)\<lparr>tStop := tStop (tp w) + tCyclePeriod (tp w)\<rparr>\<rparr>
              in Some (Inr w)))"

text \<open>\<^verbatim>\<open>for (uint32_t n = 0; n < p->nbrOfCycles; n++)\<close>, from the counter value \<open>n\<close> on.\<close>

partial_function (option) cycles :: "32 word \<Rightarrow> world \<Rightarrow> (fault + world) option" where
  "cycles n w =
     (if n < nbrOfCycles (tp w) then
        (case cycle_body w of
           None \<Rightarrow> None
         | Some (Inl e) \<Rightarrow> Some (Inl e)
         | Some (Inr w') \<Rightarrow> cycles (n + 1) w')
      else Some (Inr w))"

text \<open>
  The whole task function: the cycles, then
  \<^verbatim>\<open>vTaskDelete(p->tskHandle); p->tskHandle = nullptr;\<close>
\<close>

definition taskFunction :: "world \<Rightarrow> (fault + world) option" where
  "taskFunction w =
     (case cycles 0 w of
        None \<Rightarrow> None
      | Some (Inl e) \<Rightarrow> Some (Inl e)
      | Some (Inr w) \<Rightarrow>
          (let w = vTaskDelete (tskHandle (tp w)) w;
               w = w\<lparr>tp := (tp w)\<lparr>tskHandle := None\<rparr>\<rparr>
           in Some (Inr w)))"

section \<open>Closed forms of the loops\<close>

text \<open>
  These are not part of the source; they describe what its loops compute and are what
  the lemmas below prove the loops equal to. One round of the active phase calls the
  callback, which takes \<open>d\<close> ms, and then sleeps: \<open>step_ms\<close> is the time a round
  takes. \<open>invocations c stop step\<close> is the number of rounds begun while the clock,
  started at \<open>c\<close> ms and moved on by \<open>step\<close> each round, is before \<open>stop\<close> seconds,
  that is the quotient of \<open>1000 * stop - c\<close> by \<open>step\<close>, rounded up.
\<close>

definition step_ms :: "nat \<Rightarrow> TaskParams \<Rightarrow> int" where
  "step_ms d p = max 0 (uint (intervalMultiplier p) * tInterval p) + int d"

definition invocations :: "int \<Rightarrow> time_t \<Rightarrow> int \<Rightarrow> nat" where
  "invocations c stop step = nat ((1000 * stop - c + step - 1) div step)"

definition after_iters :: "nat \<Rightarrow> nat \<Rightarrow> world \<Rightarrow> world" where
  "after_iters n d w =
     w\<lparr>clock := clock w + int n * step_ms d (tp w),
       calls := calls w + n,
       sleeps := sleeps w @ replicate n (uint (intervalMultiplier (tp w)) * tInterval (tp w))\<rparr>"

definition cycle_end :: "nat \<Rightarrow> world \<Rightarrow> world" where
  "cycle_end d w =
     (let w1 = wait_phase w;
          w2 = after_iters (invocations (clock w1) (tStop (tp w1)) (step_ms d (tp w1))) d w1
      in w2\<lparr>tp := (tp w2)\<lparr>tStart := time_now w1 + tCyclePeriod (tp w2),
                              tStop := tStop (tp w2) + tCyclePeriod (tp w2)\<rparr>\<rparr>)"

definition task_end :: "world \<Rightarrow> world" where
  "task_end w =
     w\<lparr>deleted := deleted w @ [(tskHandle (tp w), clock w)],
       tp := (tp w)\<lparr>tskHandle := None\<rparr>\<rparr>"



section \<open>Construction defaults\<close>

text \<open>
  C4 (as amended). A freshly constructed timer holds start = 0, stop = 0, interval = 1,
  intervalMultiplier = 1000, cyclePeriod = 86400, cycleCount = 1, an empty handle and an
  empty callback. The multiplier is 1000, not 1: the product of multiplier and interval
  is handed to the delay as milliseconds, so 1000 makes the interval count seconds.
\<close>

theorem C4_defaults:
  "tStart tskParams_init = 0 \<and> tStop tskParams_init = 0 \<and> tInterval tskParams_init = 1
   \<and> intervalMultiplier tskParams_init = 1000 \<and> tCyclePeriod tskParams_init = 86400
   \<and> nbrOfCycles tskParams_init = 1 \<and> tskHandle tskParams_init = None
   \<and> callback tskParams_init = None"
  by (simp add: tskParams_init_def)

text \<open>C4 as stated fails: the default multiplier is not 1.\<close>

theorem C4_multiplier_counterexample:
  "intervalMultiplier tskParams_init \<noteq> 1"
  by (simp add: tskParams_init_def)

section \<open>What \<^verbatim>\<open>setCycleStartStop\<close> stores\<close>


lemma setCycleStartStop_period:
  "tCyclePeriod (setCycleStartStop mk hh0 mm0 s e i p) = 86400"
  by (simp add: setCycleStartStop_def Let_def split: prod.splits)

lemma setCycleStartStop_count:
  "nbrOfCycles (setCycleStartStop mk hh0 mm0 s e i p) =
     word_of_int (1 + (tStop (setCycleStartStop mk hh0 mm0 s e i p)
                       - tStart (setCycleStartStop mk hh0 mm0 s e i p)) sdiv 86400)"
  by (simp add: setCycleStartStop_def Let_def split: prod.splits)





lemma setCycleStartStop_record:
  "setCycleStartStop mk hh0 mm0 s e i p =
     p\<lparr>tInterval := i32 (60 * i32 (i32 (60 * assigned (sscanf i fmt_interval) 0 hh0)
                                    + assigned (sscanf i fmt_interval) 1 mm0)),
       tStart := fst (mk (scan_datetime s tm_zero)),
       tStop := fst (mk (scan_datetime e (snd (mk (scan_datetime s tm_zero))))),
       tCyclePeriod := 86400,
       nbrOfCycles :=
         word_of_int (1 + (fst (mk (scan_datetime e (snd (mk (scan_datetime s tm_zero)))))
                           - fst (mk (scan_datetime s tm_zero))) sdiv 86400)\<rparr>"
  by (simp add: setCycleStartStop_def Let_def split: prod.splits)
















text \<open>The texts of the examples.\<close>

lemmas scan_defs = scan_datetime_def fmt_datetime_def fmt_interval_def scan_d_def isspace_def
  isdigit_def assigned_def i32_def strtol_range_def Let_def

lemma tm_sec_mktime_zone: "tm_sec (snd (mktime_zone off td)) = local_seconds td mod 60"
  by (simp add: mktime_zone_def tm_of_local_def Let_def mod_mod_cancel split: prod.splits)

lemma scan_0613_2240:
  "scan_datetime ''2023-06-13 22:40'' td =
     td\<lparr>tm_year := 123, tm_mon := 5, tm_mday := 13, tm_hour := 22, tm_min := 40,
        tm_isdst := - 1\<rparr>"
  by (simp add: scan_defs)

lemma scan_0614_0615:
  "scan_datetime ''2023-06-14 06:15'' td =
     td\<lparr>tm_year := 123, tm_mon := 5, tm_mday := 14, tm_hour := 6, tm_min := 15,
        tm_isdst := - 1\<rparr>"
  by (simp add: scan_defs)

lemma scan_0613_0615:
  "scan_datetime ''2023-06-13 06:15'' td =
     td\<lparr>tm_year := 123, tm_mon := 5, tm_mday := 13, tm_hour := 6, tm_min := 15,
        tm_isdst := - 1\<rparr>"
  by (simp add: scan_defs)

lemma scan_0611_0615:
  "scan_datetime ''2023-06-11 06:15'' td =
     td\<lparr>tm_year := 123, tm_mon := 5, tm_mday := 11, tm_hour := 6, tm_min := 15,
        tm_isdst := - 1\<rparr>"
  by (simp add: scan_defs)




lemma mktime_0613_2240:
  "fst (mktime_zone off (scan_datetime ''2023-06-13 22:40'' td)) = 1686696000 + tm_sec td - off"
  by (simp add: scan_0613_2240 mktime_zone_def local_seconds_def days_from_civil_def)

lemma mktime_0614_0615:
  "fst (mktime_zone off (scan_datetime ''2023-06-14 06:15'' td)) = 1686723300 + tm_sec td - off"
  by (simp add: scan_0614_0615 mktime_zone_def local_seconds_def days_from_civil_def)

lemma mktime_0613_0615:
  "fst (mktime_zone off (scan_datetime ''2023-06-13 06:15'' td)) = 1686636900 + tm_sec td - off"
  by (simp add: scan_0613_0615 mktime_zone_def local_seconds_def days_from_civil_def)

lemma mktime_0611_0615:
  "fst (mktime_zone off (scan_datetime ''2023-06-11 06:15'' td)) = 1686464100 + tm_sec td - off"
  by (simp add: scan_0611_0615 mktime_zone_def local_seconds_def days_from_civil_def)

lemma sec_0613_2240:
  "tm_sec (snd (mktime_zone off (scan_datetime ''2023-06-13 22:40'' tm_zero))) = 0"
  by (simp add: tm_sec_mktime_zone scan_0613_2240 local_seconds_def days_from_civil_def tm_zero_def)

lemma sec_0614_0615:
  "tm_sec (snd (mktime_zone off (scan_datetime ''2023-06-14 06:15'' tm_zero))) = 0"
  by (simp add: tm_sec_mktime_zone scan_0614_0615 local_seconds_def days_from_civil_def tm_zero_def)

lemma scan_interval_0005: "sscanf ''00:05'' fmt_interval = [0, 5]"
  by (simp add: scan_defs)

lemma scan_interval_5: "sscanf ''5'' fmt_interval = [5]"
  by (simp add: scan_defs)

lemma scan_interval_0500: "sscanf ''05:00'' fmt_interval = [5, 0]"
  by (simp add: scan_defs)

lemma tm_sec_zero: "tm_sec tm_zero = 0"
  by (simp add: tm_zero_def)

lemmas example_evals = tm_sec_zero setCycleStartStop_record mktime_0613_2240 mktime_0614_0615
  mktime_0613_0615 mktime_0611_0615
  sec_0613_2240 sec_0614_0615 scan_interval_0005 scan_interval_5 scan_interval_0500
  assigned_def i32_def signed_divide_int_def tskParams_init_def

lemma sdiv_nonneg: "0 \<le> a \<Longrightarrow> a sdiv (86400 :: int) = a div 86400"
  by (simp add: signed_divide_int_def sgn_if)

lemma sdiv_neg: "a < 0 \<Longrightarrow> a sdiv (86400 :: int) = - ((- a) div 86400)"
  by (simp add: signed_divide_int_def sgn_if)

text \<open>
  C5 (as amended). Whatever the texts and the time stamps \<open>mktime\<close> returns for them,
  \<open>setCycleStartStop\<close> sets cyclePeriod to 86400 and cycleCount to
  \<open>1 + (stop - start) / 86400\<close>, the quotient truncated towards zero and the sum reduced
  modulo \<open>2 ^ 32\<close>. When \<open>stop \<ge> start\<close> and the quotient is below \<open>2 ^ 32 - 1\<close>,
  this is \<open>1 + floor ((stop - start) / cyclePeriod)\<close>.
\<close>

theorem C5_cycle_count:
  "tCyclePeriod (setCycleStartStop mk hh0 mm0 s e i p) = 86400
   \<and> nbrOfCycles (setCycleStartStop mk hh0 mm0 s e i p) =
       word_of_int (1 + (tStop (setCycleStartStop mk hh0 mm0 s e i p)
                         - tStart (setCycleStartStop mk hh0 mm0 s e i p)) sdiv 86400)
   \<and> (tStart (setCycleStartStop mk hh0 mm0 s e i p) \<le> tStop (setCycleStartStop mk hh0 mm0 s e i p)
        \<and> (tStop (setCycleStartStop mk hh0 mm0 s e i p)
             - tStart (setCycleStartStop mk hh0 mm0 s e i p)) div 86400 < 2 ^ 32 - 1
      \<longrightarrow> uint (nbrOfCycles (setCycleStartStop mk hh0 mm0 s e i p)) =
            1 + (tStop (setCycleStartStop mk hh0 mm0 s e i p)
                 - tStart (setCycleStartStop mk hh0 mm0 s e i p))
                div tCyclePeriod (setCycleStartStop mk hh0 mm0 s e i p))"
proof -
  let ?r = "setCycleStartStop mk hh0 mm0 s e i p"
  have per: "tCyclePeriod ?r = 86400" by (rule setCycleStartStop_period)
  have cnt: "nbrOfCycles ?r = word_of_int (1 + (tStop ?r - tStart ?r) sdiv 86400)"
    by (rule setCycleStartStop_count)
  have "uint (nbrOfCycles ?r) = 1 + (tStop ?r - tStart ?r) div tCyclePeriod ?r"
    if le: "tStart ?r \<le> tStop ?r" and bd: "(tStop ?r - tStart ?r) div 86400 < 2 ^ 32 - 1"
  proof -
    let ?q = "(tStop ?r - tStart ?r) div 86400"
    have q0: "0 \<le> ?q" using le by simp
    have "nbrOfCycles ?r = word_of_int (1 + ?q)"
      using cnt le by (simp add: sdiv_nonneg)
    then have "uint (nbrOfCycles ?r) = (1 + ?q) mod 2 ^ 32"
      by (simp only: uint_word_of_int) simp
    also have "\<dots> = 1 + ?q" using q0 bd by simp
    finally show ?thesis by (simp add: per)
  qed
  with per cnt show ?thesis by blast
qed

text \<open>The example of the source's comment, in a zone two hours east of UTC.\<close>

theorem C5_cycle_count_witness:
  "tStart (setCycleStartStop (mktime_zone 7200) 0 0
       ''2023-06-13 22:40'' ''2023-06-14 06:15'' ''00:05'' tskParams_init) = 1686688800
   \<and> tStop (setCycleStartStop (mktime_zone 7200) 0 0
       ''2023-06-13 22:40'' ''2023-06-14 06:15'' ''00:05'' tskParams_init) = 1686716100
   \<and> uint (nbrOfCycles (setCycleStartStop (mktime_zone 7200) 0 0
       ''2023-06-13 22:40'' ''2023-06-14 06:15'' ''00:05'' tskParams_init))
       = 1 + (1686716100 - 1686688800) div 86400"
  using C5_cycle_count [of "mktime_zone 7200" 0 0 "''2023-06-13 22:40''" "''2023-06-14 06:15''"
      "''00:05''" tskParams_init]
  by (simp add: example_evals)

text \<open>
  C5 as stated fails when stop is before start: with the two texts of the example
  exchanged the difference is \<open>-27300\<close>, the C quotient is 0 and cycleCount is 1,
  where \<open>1 + floor (-27300 / 86400)\<close> is 0.
\<close>

theorem C5_reversed_counterexample:
  "setCycleStartStop (mktime_zone 7200) 0 0
      ''2023-06-14 06:15'' ''2023-06-13 22:40'' ''00:05'' tskParams_init
   = \<lparr>tStart = 1686716100, tStop = 1686688800, tInterval = 300, intervalMultiplier = 1000,
      tCyclePeriod = 86400, nbrOfCycles = 1, tskHandle = None, callback = None\<rparr>
   \<and> 1 + (1686688800 - 1686716100) div 86400 = (0 :: int)"
  by (simp add: example_evals)

text \<open>
  C7. \<open>setCycleStartStop\<close> applied to "2023-06-13 22:40", "2023-06-14 06:15" and "00:05"
  stores interval = 300, cyclePeriod = 86400 and cycleCount = 1, in every zone of fixed
  offset and whatever the parameters held before; start and stop are the two local
  times less the offset (1686688800 and 1686716100 for CEST, as in the source's comment).
\<close>

theorem C7_example:
  "tInterval (setCycleStartStop (mktime_zone off) hh0 mm0
       ''2023-06-13 22:40'' ''2023-06-14 06:15'' ''00:05'' p) = 300
   \<and> tCyclePeriod (setCycleStartStop (mktime_zone off) hh0 mm0
       ''2023-06-13 22:40'' ''2023-06-14 06:15'' ''00:05'' p) = 86400
   \<and> nbrOfCycles (setCycleStartStop (mktime_zone off) hh0 mm0
       ''2023-06-13 22:40'' ''2023-06-14 06:15'' ''00:05'' p) = 1
   \<and> tStart (setCycleStartStop (mktime_zone off) hh0 mm0
       ''2023-06-13 22:40'' ''2023-06-14 06:15'' ''00:05'' p) = 1686696000 - off
   \<and> tStop (setCycleStartStop (mktime_zone off) hh0 mm0
       ''2023-06-13 22:40'' ''2023-06-14 06:15'' ''00:05'' p) = 1686723300 - off"
  by (simp add: example_evals)

text \<open>
  C9 (as amended). When stop is before start, cycleCount is \<open>1 + (stop - start) / 86400\<close>
  with the quotient truncated towards zero, that is \<open>1 - q\<close> for
  \<open>q = (start - stop) div 86400\<close>, stored in 32 bits, so as \<open>(1 - q) mod 2 ^ 32\<close>. It
  is 1 when \<open>start - stop < 86400\<close> and 0 when \<open>86400 \<le> start - stop < 172800\<close>. From
  \<open>start - stop = 172800\<close> on the result is negative and wraps: to
  \<open>2 ^ 32 + 1 - q\<close>, a very large count, as long as \<open>q \<le> 2 ^ 32\<close>.
\<close>

theorem C9_reversed_window:
  "tStop (setCycleStartStop mk hh0 mm0 s e i p) < tStart (setCycleStartStop mk hh0 mm0 s e i p) \<longrightarrow>
   nbrOfCycles (setCycleStartStop mk hh0 mm0 s e i p) =
     word_of_int (1 + (tStop (setCycleStartStop mk hh0 mm0 s e i p)
                       - tStart (setCycleStartStop mk hh0 mm0 s e i p)) sdiv 86400)
   \<and> (tStop (setCycleStartStop mk hh0 mm0 s e i p)
        - tStart (setCycleStartStop mk hh0 mm0 s e i p)) sdiv 86400
       = - ((tStart (setCycleStartStop mk hh0 mm0 s e i p)
             - tStop (setCycleStartStop mk hh0 mm0 s e i p)) div 86400)
   \<and> uint (nbrOfCycles (setCycleStartStop mk hh0 mm0 s e i p)) =
       (1 - (tStart (setCycleStartStop mk hh0 mm0 s e i p)
             - tStop (setCycleStartStop mk hh0 mm0 s e i p)) div 86400) mod 2 ^ 32
   \<and> (tStart (setCycleStartStop mk hh0 mm0 s e i p)
         - tStop (setCycleStartStop mk hh0 mm0 s e i p) < 86400
       \<longrightarrow> nbrOfCycles (setCycleStartStop mk hh0 mm0 s e i p) = 1)
   \<and> (86400 \<le> tStart (setCycleStartStop mk hh0 mm0 s e i p)
                 - tStop (setCycleStartStop mk hh0 mm0 s e i p)
        \<and> tStart (setCycleStartStop mk hh0 mm0 s e i p)
           - tStop (setCycleStartStop mk hh0 mm0 s e i p) < 172800
       \<longrightarrow> nbrOfCycles (setCycleStartStop mk hh0 mm0 s e i p) = 0)
   \<and> (172800 \<le> tStart (setCycleStartStop mk hh0 mm0 s e i p)
                  - tStop (setCycleStartStop mk hh0 mm0 s e i p)
        \<and> (tStart (setCycleStartStop mk hh0 mm0 s e i p)
            - tStop (setCycleStartStop mk hh0 mm0 s e i p)) div 86400 \<le> 2 ^ 32
       \<longrightarrow> uint (nbrOfCycles (setCycleStartStop mk hh0 mm0 s e i p)) =
             2 ^ 32 + 1 - (tStart (setCycleStartStop mk hh0 mm0 s e i p)
                           - tStop (setCycleStartStop mk hh0 mm0 s e i p)) div 86400)"
proof
  let ?r = "setCycleStartStop mk hh0 mm0 s e i p"
  let ?q = "(tStart ?r - tStop ?r) div 86400"
  assume lt: "tStop ?r < tStart ?r"
  have cnt: "nbrOfCycles ?r = word_of_int (1 + (tStop ?r - tStart ?r) sdiv 86400)"
    by (rule setCycleStartStop_count)
  have sd: "(tStop ?r - tStart ?r) sdiv 86400 = - ?q"
    using lt sdiv_neg [of "tStop ?r - tStart ?r"] by simp
  have c: "nbrOfCycles ?r = word_of_int (1 - ?q)" using cnt sd by simp
  have one: "nbrOfCycles ?r = 1" if "tStart ?r - tStop ?r < 86400"
  proof -
    have "?q = 0" using lt that by simp
    with c show ?thesis by simp
  qed
  have zero: "nbrOfCycles ?r = 0" if "86400 \<le> tStart ?r - tStop ?r" "tStart ?r - tStop ?r < 172800"
  proof -
    have "?q = 1" using that by linarith
    with c show ?thesis by simp
  qed
  have gen: "uint (nbrOfCycles ?r) = (1 - ?q) mod 2 ^ 32"
    using c by (simp only: uint_word_of_int) simp
  have big: "uint (nbrOfCycles ?r) = 2 ^ 32 + 1 - ?q"
    if "172800 \<le> tStart ?r - tStop ?r" "?q \<le> 2 ^ 32"
  proof -
    have q2: "2 \<le> ?q" using that(1) by linarith
    note gen
    also have "(1 - ?q) mod 2 ^ 32 = (2 ^ 32 + (1 - ?q)) mod 2 ^ 32"
      by (simp only: mod_add_self1)
    also have "\<dots> = (2 ^ 32 + 1 - ?q) mod 2 ^ 32"
      by (simp add: algebra_simps)
    also have "\<dots> = 2 ^ 32 + 1 - ?q" using q2 that(2) by simp
    finally show ?thesis .
  qed
  from cnt sd gen one zero big
  show "nbrOfCycles ?r = word_of_int (1 + (tStop ?r - tStart ?r) sdiv 86400)
    \<and> (tStop ?r - tStart ?r) sdiv 86400 = - ?q
    \<and> uint (nbrOfCycles ?r) = (1 - ?q) mod 2 ^ 32
    \<and> (tStart ?r - tStop ?r < 86400 \<longrightarrow> nbrOfCycles ?r = 1)
    \<and> (86400 \<le> tStart ?r - tStop ?r \<and> tStart ?r - tStop ?r < 172800 \<longrightarrow> nbrOfCycles ?r = 0)
    \<and> (172800 \<le> tStart ?r - tStop ?r \<and> ?q \<le> 2 ^ 32
         \<longrightarrow> uint (nbrOfCycles ?r) = 2 ^ 32 + 1 - ?q)"
    by blast
qed


text \<open>
  Start "2023-06-14 06:15" with a stop 27300 s, one day and three days before it: the
  stored counts are 1, 0 and \<open>2 ^ 32 - 2\<close>.
\<close>

theorem C9_reversed_window_witness:
  "tStart (setCycleStartStop (mktime_zone 7200) 0 0
       ''2023-06-14 06:15'' ''2023-06-13 22:40'' ''00:05'' tskParams_init)
      - tStop (setCycleStartStop (mktime_zone 7200) 0 0
       ''2023-06-14 06:15'' ''2023-06-13 22:40'' ''00:05'' tskParams_init) = 27300
   \<and> nbrOfCycles (setCycleStartStop (mktime_zone 7200) 0 0
       ''2023-06-14 06:15'' ''2023-06-13 22:40'' ''00:05'' tskParams_init) = 1
   \<and> tStart (setCycleStartStop (mktime_zone 7200) 0 0
       ''2023-06-14 06:15'' ''2023-06-13 06:15'' ''00:05'' tskParams_init)
      - tStop (setCycleStartStop (mktime_zone 7200) 0 0
       ''2023-06-14 06:15'' ''2023-06-13 06:15'' ''00:05'' tskParams_init) = 86400
   \<and> nbrOfCycles (setCycleStartStop (mktime_zone 7200) 0 0
       ''2023-06-14 06:15'' ''2023-06-13 06:15'' ''00:05'' tskParams_init) = 0
   \<and> tStart (setCycleStartStop (mktime_zone 7200) 0 0
       ''2023-06-14 06:15'' ''2023-06-11 06:15'' ''00:05'' tskParams_init)
      - tStop (setCycleStartStop (mktime_zone 7200) 0 0
       ''2023-06-14 06:15'' ''2023-06-11 06:15'' ''00:05'' tskParams_init) = 259200
   \<and> uint (nbrOfCycles (setCycleStartStop (mktime_zone 7200) 0 0
       ''2023-06-14 06:15'' ''2023-06-11 06:15'' ''00:05'' tskParams_init)) = 4294967294"
  using C9_reversed_window [of "mktime_zone 7200" 0 0 "''2023-06-14 06:15''"
      "''2023-06-13 22:40''" "''00:05''" tskParams_init]
    C9_reversed_window [of "mktime_zone 7200" 0 0 "''2023-06-14 06:15''"
      "''2023-06-13 06:15''" "''00:05''" tskParams_init]
    C9_reversed_window [of "mktime_zone 7200" 0 0 "''2023-06-14 06:15''"
      "''2023-06-11 06:15''" "''00:05''" tskParams_init]
  by (simp add: example_evals)

text \<open>
  C9 as stated fails at \<open>start - stop = 86400\<close>: the result is 0, which does not wrap,
  and the stored cycleCount is 0, not a very large number.
\<close>

theorem C9_one_day_counterexample:
  "setCycleStartStop (mktime_zone 7200) 0 0
      ''2023-06-14 06:15'' ''2023-06-13 06:15'' ''00:05'' tskParams_init
   = \<lparr>tStart = 1686716100, tStop = 1686629700, tInterval = 300, intervalMultiplier = 1000,
      tCyclePeriod = 86400, nbrOfCycles = 0, tskHandle = None, callback = None\<rparr>
   \<and> 1686716100 - 1686629700 = (86400 :: int)"
  by (simp add: example_evals)




section \<open>The wait phase and the active phase\<close>

declare wait_phase.simps [simp del]

lemma time_now_less: "time_now w < s \<longleftrightarrow> clock w < 1000 * s"
proof -
  have "clock w = 1000 * (clock w div 1000) + clock w mod 1000" by simp
  moreover have "0 \<le> clock w mod 1000" "clock w mod 1000 < 1000" by simp_all
  ultimately show ?thesis unfolding time_now_def by linarith
qed

lemma time_now_le: "s \<le> time_now w \<longleftrightarrow> 1000 * s \<le> clock w"
  using time_now_less [of w s] by linarith

lemma wait_phase_late: "tStart (tp w) \<le> time_now w \<Longrightarrow> wait_phase w = w"
  by (subst wait_phase.simps) simp

lemma wait_phase_keeps:
  "tp (wait_phase w) = tp w \<and> calls (wait_phase w) = calls w \<and> deleted (wait_phase w) = deleted w"
proof (induction w rule: wait_phase.induct)
  case (1 w)
  show ?case
  proof (cases "tStart (tp w) > time_now w")
    case True
    with 1 show ?thesis
      by (subst (1 2 3) wait_phase.simps) (simp add: vTaskDelay_ms_def)
  next
    case False
    then show ?thesis by (simp add: wait_phase_late)
  qed
qed

lemma wait_phase_reached: "tStart (tp w) \<le> time_now (wait_phase w)"
proof (induction w rule: wait_phase.induct)
  case (1 w)
  show ?case
  proof (cases "tStart (tp w) > time_now w")
    case True
    with 1 show ?thesis
      by (subst wait_phase.simps) (simp add: vTaskDelay_ms_def)
  next
    case False
    then show ?thesis by (simp add: wait_phase_late)
  qed
qed

lemma wait_phase_exact:
  "time_now w \<le> tStart (tp w) \<Longrightarrow> time_now (wait_phase w) = tStart (tp w)"
proof (induction w rule: wait_phase.induct)
  case (1 w)
  show ?case
  proof (cases "tStart (tp w) > time_now w")
    case True
    then have "clock w < 1000 * tStart (tp w)" by (simp add: time_now_less)
    then have "clock (vTaskDelay_ms 10 w) < 1000 * (tStart (tp w) + 1)"
      by (simp add: vTaskDelay_ms_def)
    then have "time_now (vTaskDelay_ms 10 w) < tStart (tp w) + 1"
      by (simp only: time_now_less)
    then have "time_now (vTaskDelay_ms 10 w) \<le> tStart (tp (vTaskDelay_ms 10 w))"
      by (simp add: vTaskDelay_ms_def)
    with 1 True show ?thesis
      by (subst wait_phase.simps) (simp add: vTaskDelay_ms_def)
  next
    case False
    with 1 show ?thesis by (simp add: wait_phase_late)
  qed
qed

lemma wait_round:
  fixes a :: int
  assumes "0 < a"
  shows "(if a \<le> 10 then 10 else 10 + 10 * ((a - 10 + 9) div 10)) = 10 * ((a + 9) div 10)"
proof -
  have "(a + 9) div 10 = (a - 10 + 9) div 10 + 1" by simp
  moreover have "a \<le> 10 \<Longrightarrow> (a - 10 + 9) div 10 = 0" using assms by simp
  ultimately show ?thesis by simp
qed

lemma wait_phase_clock_aux:
  "1000 * tStart (tp w) - clock w = a \<Longrightarrow>
   clock (wait_phase w) = clock w + (if a \<le> 0 then 0 else 10 * ((a + 9) div 10))"
proof (induction w arbitrary: a rule: wait_phase.induct)
  case (1 w)
  show ?case
  proof (cases "tStart (tp w) > time_now w")
    case True
    then have a: "0 < a" using "1.prems" by (simp add: time_now_less)
    have "1000 * tStart (tp (vTaskDelay_ms 10 w)) - clock (vTaskDelay_ms 10 w) = a - 10"
      using "1.prems" by (simp add: vTaskDelay_ms_def)
    from "1.IH" [OF True this]
    have "clock (wait_phase (vTaskDelay_ms 10 w)) =
            clock w + 10 + (if a - 10 \<le> 0 then 0 else 10 * ((a - 10 + 9) div 10))"
      by (simp add: vTaskDelay_ms_def)
    also have "\<dots> = clock w + 10 * ((a + 9) div 10)"
      using wait_round [OF a] by (simp split: if_splits)
    finally have "clock (wait_phase (vTaskDelay_ms 10 w)) = clock w + 10 * ((a + 9) div 10)" .
    moreover have "wait_phase w = wait_phase (vTaskDelay_ms 10 w)"
      using True by (subst wait_phase.simps) simp
    ultimately show ?thesis using a by simp
  next
    case False
    then have "a \<le> 0" using "1.prems" time_now_less [of w "tStart (tp w)"] by simp
    with False show ?thesis by (simp add: wait_phase_late)
  qed
qed

lemma wait_phase_clock:
  "clock (wait_phase w) =
     (if 1000 * tStart (tp w) \<le> clock w then clock w
      else clock w + 10 * ((1000 * tStart (tp w) - clock w + 9) div 10))"
  using wait_phase_clock_aux [OF refl, of w] by simp

lemma active_phase_closed: "\<not> time_now w < tStop (tp w) \<Longrightarrow> active_phase w = Some (Inr w)"
  by (subst active_phase.simps) simp

lemma after_iters_1:
  "vTaskDelay_ms (uint (intervalMultiplier (tp w)) * tInterval (tp w)) (invoke (Callback d) w)
   = after_iters (Suc 0) d w"
  by (simp add: after_iters_def step_ms_def vTaskDelay_ms_def invoke_def)

lemma active_phase_open:
  "time_now w < tStop (tp w) \<Longrightarrow> callback (tp w) = Some (Callback d) \<Longrightarrow>
   active_phase w = active_phase (after_iters (Suc 0) d w)"
  by (subst active_phase.simps) (simp add: after_iters_1)


lemma step_ms_nonneg: "0 \<le> step_ms d p"
  by (simp add: step_ms_def)

lemma after_iters_0: "after_iters 0 d w = w"
  by (simp add: after_iters_def)

lemma after_iters_Suc: "after_iters n d (after_iters (Suc 0) d w) = after_iters (Suc n) d w"
  by (simp add: after_iters_def algebra_simps replicate_append_same)

lemma active_phase_iters:
  "callback (tp w) = Some (Callback d) \<Longrightarrow>
   (0 < n \<Longrightarrow> clock w + (int n - 1) * step_ms d (tp w) < 1000 * tStop (tp w)) \<Longrightarrow>
   active_phase w = active_phase (after_iters n d w)"
proof (induction n arbitrary: w)
  case 0
  then show ?case by (simp add: after_iters_0)
next
  case (Suc n)
  have "0 \<le> int n * step_ms d (tp w)" by (simp add: step_ms_nonneg)
  with Suc.prems(2) have op: "time_now w < tStop (tp w)"
    by (simp add: time_now_less)
  let ?w1 = "after_iters (Suc 0) d w"
  have tp1: "tp ?w1 = tp w" by (simp add: after_iters_def)
  have c1: "clock ?w1 = clock w + step_ms d (tp w)" by (simp add: after_iters_def)
  have "active_phase ?w1 = active_phase (after_iters n d ?w1)"
  proof (rule Suc.IH)
    show "callback (tp ?w1) = Some (Callback d)" using Suc.prems(1) tp1 by simp
    assume "0 < n"
    show "clock ?w1 + (int n - 1) * step_ms d (tp ?w1) < 1000 * tStop (tp ?w1)"
      using Suc.prems(2) by (simp add: tp1 c1 algebra_simps)
  qed
  then show ?case
    using active_phase_open [OF op Suc.prems(1)] by (simp add: after_iters_Suc)
qed

lemma ceil_div_bounds:
  fixes a s :: int
  assumes "0 < s"
  shows "((a + s - 1) div s - 1) * s < a" and "a \<le> ((a + s - 1) div s) * s"
proof -
  let ?q = "(a + s - 1) div s" and ?r = "(a + s - 1) mod s"
  have e: "?q * s + ?r = a + s - 1" by simp
  have r: "0 \<le> ?r" "?r < s" using assms by simp_all
  have m: "(?q - 1) * s = ?q * s - s" by (simp add: algebra_simps)
  show "(?q - 1) * s < a" using e r m by linarith
  show "a \<le> ?q * s" using e r by linarith
qed

lemma invocations_closed:
  assumes pos: "0 < step_ms d (tp w)"
  shows "tStop (tp w)
           \<le> time_now (after_iters (invocations (clock w) (tStop (tp w)) (step_ms d (tp w))) d w)"
proof -
  let ?s = "step_ms d (tp w)" and ?a = "1000 * tStop (tp w) - clock w"
  let ?q = "(?a + ?s - 1) div ?s"
  let ?n = "invocations (clock w) (tStop (tp w)) ?s"
  have n: "?n = nat ?q" by (simp add: invocations_def)
  have b2: "?a \<le> ?q * ?s"
    using ceil_div_bounds [OF pos, of ?a] by simp
  have "?q * ?s \<le> int ?n * ?s"
    using n pos by (simp add: mult_right_mono)
  then have "1000 * tStop (tp w) \<le> clock (after_iters ?n d w)"
    using b2 by (simp add: after_iters_def)
  then show ?thesis by (simp only: time_now_le)
qed

lemma active_phase_result:
  assumes cb: "callback (tp w) = Some (Callback d)" and pos: "0 < step_ms d (tp w)"
  shows "active_phase w =
           Some (Inr (after_iters (invocations (clock w) (tStop (tp w)) (step_ms d (tp w))) d w))"
proof -
  let ?s = "step_ms d (tp w)" and ?a = "1000 * tStop (tp w) - clock w"
  let ?q = "(?a + ?s - 1) div ?s"
  let ?n = "invocations (clock w) (tStop (tp w)) ?s"
  have n: "?n = nat ?q" by (simp add: invocations_def)
  have b1: "(?q - 1) * ?s < ?a"
    using ceil_div_bounds [OF pos, of ?a] by simp
  have run: "active_phase w = active_phase (after_iters ?n d w)"
  proof (rule active_phase_iters [OF cb])
    assume "0 < ?n"
    then have "int ?n = ?q" using n by simp
    then show "clock w + (int ?n - 1) * ?s < 1000 * tStop (tp w)" using b1 by simp
  qed
  have "tStop (tp (after_iters ?n d w)) \<le> time_now (after_iters ?n d w)"
    using invocations_closed [OF pos] by (simp add: after_iters_def)
  then have "\<not> time_now (after_iters ?n d w) < tStop (tp (after_iters ?n d w))"
    by simp
  then show ?thesis using run active_phase_closed by simp
qed

lemma after_iters_tStart:
  "after_iters n d (w\<lparr>tp := (tp w)\<lparr>tStart := x\<rparr>\<rparr>)
   = (after_iters n d w)\<lparr>tp := (tp w)\<lparr>tStart := x\<rparr>\<rparr>"
  by (simp add: after_iters_def step_ms_def)

lemma cycle_body_result:
  assumes cb: "callback (tp w) = Some (Callback d)" and pos: "0 < step_ms d (tp w)"
  shows "cycle_body w = Some (Inr (cycle_end d w))"
proof -
  let ?w1 = "wait_phase w"
  let ?w2 = "?w1\<lparr>tp := (tp ?w1)\<lparr>tStart := time_now ?w1\<rparr>\<rparr>"
  have tp1: "tp ?w1 = tp w" by (simp add: wait_phase_keeps)
  have cb2: "callback (tp ?w2) = Some (Callback d)" using cb tp1 by simp
  have pos2: "0 < step_ms d (tp ?w2)" using pos tp1 by (simp add: step_ms_def)
  have "active_phase ?w2 =
          Some (Inr (after_iters (invocations (clock ?w2) (tStop (tp ?w2)) (step_ms d (tp ?w2))) d ?w2))"
    by (rule active_phase_result [OF cb2 pos2])
  moreover have "step_ms d (tp ?w2) = step_ms d (tp ?w1)" by (simp add: step_ms_def)
  ultimately have "active_phase ?w2 =
      Some (Inr ((after_iters (invocations (clock ?w1) (tStop (tp ?w1)) (step_ms d (tp ?w1))) d ?w1)
                   \<lparr>tp := (tp ?w1)\<lparr>tStart := time_now ?w1\<rparr>\<rparr>))"
    by (simp add: after_iters_tStart)
  then show ?thesis
    by (simp add: cycle_body_def cycle_end_def Let_def after_iters_def)
qed

lemma cycle_end_tp:
  "tp (cycle_end d w) =
     (tp w)\<lparr>tStart := time_now (wait_phase w) + tCyclePeriod (tp w),
            tStop := tStop (tp w) + tCyclePeriod (tp w)\<rparr>"
  by (simp add: cycle_end_def Let_def after_iters_def wait_phase_keeps)

lemma cycle_end_calls:
  "calls (cycle_end d w) =
     calls w + invocations (clock (wait_phase w)) (tStop (tp w)) (step_ms d (tp w))"
  by (simp add: cycle_end_def Let_def after_iters_def wait_phase_keeps)

lemma cycle_end_deleted: "deleted (cycle_end d w) = deleted w"
  by (simp add: cycle_end_def Let_def after_iters_def wait_phase_keeps)

lemma cycle_end_closed:
  assumes pos: "0 < step_ms d (tp w)"
  shows "tStop (tp w) \<le> time_now (cycle_end d w)"
proof -
  have "0 < step_ms d (tp (wait_phase w))" using pos by (simp add: wait_phase_keeps)
  from invocations_closed [OF this] show ?thesis
    by (simp add: cycle_end_def Let_def wait_phase_keeps time_now_def)
qed

lemma step_ms_cycle_end: "step_ms d (tp (cycle_end d w)) = step_ms d (tp w)"
  by (simp add: cycle_end_tp step_ms_def)



lemma cycles_done: "\<not> n < nbrOfCycles (tp w) \<Longrightarrow> cycles n w = Some (Inr w)"
  by (subst cycles.simps) simp

lemma cycles_step:
  "n < nbrOfCycles (tp w) \<Longrightarrow> callback (tp w) = Some (Callback d) \<Longrightarrow> 0 < step_ms d (tp w) \<Longrightarrow>
   cycles n w = cycles (n + 1) (cycle_end d w)"
  by (subst cycles.simps) (simp add: cycle_body_result)

lemma unat_succ:
  fixes n K :: "32 word"
  assumes "n < K"
  shows "unat (n + 1) = Suc (unat n)"
proof -
  have "unat n < unat K" using assms by (simp add: word_less_nat_alt)
  moreover have "unat K < 2 ^ 32" using unsigned_less [of K] by simp
  ultimately have "unat n + unat (1 :: 32 word) < 2 ^ LENGTH(32)" by simp
  then have "unat (n + 1) = unat n + unat (1 :: 32 word)" by (simp only: unat_add_lem)
  then show ?thesis by simp
qed

lemma cycles_result:
  "callback (tp w) = Some (Callback d) \<Longrightarrow> 0 < step_ms d (tp w) \<Longrightarrow>
   unat (nbrOfCycles (tp w)) - unat n = k \<Longrightarrow>
   cycles n w = Some (Inr ((cycle_end d ^^ k) w))"
proof (induction k arbitrary: n w)
  case 0
  then have "\<not> n < nbrOfCycles (tp w)" by (simp add: word_less_nat_alt)
  then show ?case by (simp add: cycles_done)
next
  case (Suc k)
  then have lt: "n < nbrOfCycles (tp w)" by (simp add: word_less_nat_alt)
  let ?v = "cycle_end d w"
  have tpv: "tp ?v = (tp w)\<lparr>tStart := tStart (tp ?v), tStop := tStop (tp ?v)\<rparr>"
    by (simp add: cycle_end_tp)
  have "callback (tp ?v) = Some (Callback d)" using Suc.prems(1) by (subst tpv) simp
  moreover have "0 < step_ms d (tp ?v)" using Suc.prems(2) by (simp add: step_ms_cycle_end)
  moreover have "unat (nbrOfCycles (tp ?v)) - unat (n + 1) = k"
    using Suc.prems(3) unat_succ [OF lt] by (subst tpv) simp
  ultimately have "cycles (n + 1) ?v = Some (Inr ((cycle_end d ^^ k) ?v))"
    by (rule Suc.IH)
  then show ?case
    using cycles_step [OF lt Suc.prems(1,2)] by (simp add: funpow_swap1)
qed

lemma taskFunction_result:
  assumes cb: "callback (tp w) = Some (Callback d)" and pos: "0 < step_ms d (tp w)"
  shows "taskFunction w =
           Some (Inr (task_end ((cycle_end d ^^ unat (nbrOfCycles (tp w))) w)))"
proof -
  have "cycles 0 w = Some (Inr ((cycle_end d ^^ unat (nbrOfCycles (tp w))) w))"
    by (rule cycles_result [OF cb pos]) simp
  then show ?thesis
    by (simp add: taskFunction_def task_end_def vTaskDelete_def Let_def)
qed

lemma wait_phase_time: "time_now (wait_phase w) = max (tStart (tp w)) (time_now w)"
proof (cases "time_now w \<le> tStart (tp w)")
  case True
  then show ?thesis by (simp add: wait_phase_exact)
next
  case False
  then show ?thesis by (simp add: wait_phase_late)
qed




lemma step_ms_pos_interval:
  assumes iv: "0 < tInterval p" and nz: "intervalMultiplier p \<noteq> 0 \<or> 0 < d"
  shows "step_ms d p = uint (intervalMultiplier p) * tInterval p + int d"
    and "0 < step_ms d p"
proof -
  have nn: "0 \<le> uint (intervalMultiplier p) * tInterval p" using iv by simp
  then show eq: "step_ms d p = uint (intervalMultiplier p) * tInterval p + int d"
    by (simp add: step_ms_def)
  show "0 < step_ms d p"
  proof (cases "intervalMultiplier p = 0")
    case True
    with nz eq show ?thesis by simp
  next
    case False
    then have "0 < uint (intervalMultiplier p)" by (simp add: word_neq_0_conv word_less_def)
    then have "0 < uint (intervalMultiplier p) * tInterval p" using iv by simp
    with eq show ?thesis by simp
  qed
qed

lemma invocations_seconds:
  assumes "0 < i"
  shows "int (invocations (1000 * a) b (1000 * i)) = max 0 ((b - a + i - 1) div i)"
proof -
  have "(1000 * b - 1000 * a + 1000 * i - 1) div (1000 * i)
        = (1000 * b - 1000 * a + 1000 * i - 1) div 1000 div i"
    by (rule zdiv_zmult2_eq) (use assms in simp)
  moreover have "(1000 * b - 1000 * a + 1000 * i - 1) div 1000 = b - a + i - 1"
  proof -
    have "1000 * b - 1000 * a + 1000 * i - 1 = (b - a + i - 1) * 1000 + 999" by simp
    then show ?thesis by (simp only: div_mult_self3)
  qed
  ultimately show ?thesis by (simp add: invocations_def)
qed




lemmas loop_evals = cycle_end_def after_iters_def invocations_def step_ms_def task_end_def
  wait_phase_late time_now_def

text \<open>The loop left after \<open>n\<close> rounds, and the loop run to its end.\<close>

lemma active_rounds_closed: "\<not> time_now w < tStop (tp w) \<Longrightarrow> active_rounds n w = Inr w"
  by (cases n) simp_all





section \<open>What the task function does\<close>

text \<open>
  C1 (as amended). Take cycleCount = 1, interval > 0, a callback that blocks \<open>d\<close> ms
  per call, and a multiplier other than 0 (or \<open>d > 0\<close>). The \<^verbatim>\<open>for\<close> loop of the task
  function comes to its end, in a state \<open>w1\<close>. Up to there the callback has been invoked
  as often as a round, which takes \<open>intervalMultiplier * interval + d\<close> ms, begins
  before \<open>stop\<close>: the quotient of \<open>1000 * stop - c\<close> by that duration, rounded up (no
  invocation when \<open>c \<ge> 1000 * stop\<close>). Here \<open>c\<close> is the clock in ms at the end of the
  wait phase: the clock at entry when start has come, and else the first of the 10 ms
  polls at or after start. Entered exactly at start, with the multiplier 1000 and a
  callback that takes no time, the count is \<open>(stop - start) / interval\<close> rounded up. In
  \<open>w1\<close> the time is \<open>stop\<close> or later, the handle is still the stored one and nothing
  has been passed to \<^verbatim>\<open>vTaskDelete\<close> on the way. The task function returns \<open>w1\<close> with
  the handle passed to \<^verbatim>\<open>vTaskDelete\<close> at the clock of \<open>w1\<close>, and cleared: no
  invocation follows the deletion, and the clock of the deletion is that of the loop's end.
\<close>

theorem C1_invocation_count:
  assumes K: "nbrOfCycles (tp w) = 1" and cb: "callback (tp w) = Some (Callback d)"
    and iv: "0 < tInterval (tp w)" and nz: "intervalMultiplier (tp w) \<noteq> 0 \<or> 0 < d"
  shows "\<exists>w1. cycles 0 w = Some (Inr w1)
      \<and> calls w1 = calls w + invocations (clock (wait_phase w)) (tStop (tp w))
                                (uint (intervalMultiplier (tp w)) * tInterval (tp w) + int d)
      \<and> clock (wait_phase w) =
          (if 1000 * tStart (tp w) \<le> clock w then clock w
           else clock w + 10 * ((1000 * tStart (tp w) - clock w + 9) div 10))
      \<and> (clock w = 1000 * tStart (tp w) \<and> intervalMultiplier (tp w) = 1000 \<and> d = 0
           \<longrightarrow> int (calls w1) = int (calls w)
                 + max 0 ((tStop (tp w) - tStart (tp w) + tInterval (tp w) - 1) div tInterval (tp w)))
      \<and> tStop (tp w) \<le> time_now w1
      \<and> tskHandle (tp w1) = tskHandle (tp w) \<and> deleted w1 = deleted w
      \<and> taskFunction w =
          Some (Inr (w1\<lparr>deleted := deleted w1 @ [(tskHandle (tp w1), clock w1)],
                        tp := (tp w1)\<lparr>tskHandle := None\<rparr>\<rparr>))"
proof -
  let ?s = "uint (intervalMultiplier (tp w)) * tInterval (tp w) + int d"
  have st: "step_ms d (tp w) = ?s" and pos: "0 < step_ms d (tp w)"
    using step_ms_pos_interval [OF iv nz] by simp_all
  let ?v = "cycle_end d w"
  have "cycles 0 w = Some (Inr ((cycle_end d ^^ 1) w))"
    by (rule cycles_result [OF cb pos]) (simp add: K)
  then have cyc: "cycles 0 w = Some (Inr ?v)" by simp
  have c: "calls ?v = calls w + invocations (clock (wait_phase w)) (tStop (tp w)) ?s"
    by (simp add: cycle_end_calls st)
  have aligned: "int (calls ?v) = int (calls w)
       + max 0 ((tStop (tp w) - tStart (tp w) + tInterval (tp w) - 1) div tInterval (tp w))"
    if a: "clock w = 1000 * tStart (tp w)" and m: "intervalMultiplier (tp w) = 1000" and d0: "d = 0"
  proof -
    have "tStart (tp w) \<le> time_now w" using a by (simp add: time_now_le)
    then have "wait_phase w = w" by (rule wait_phase_late)
    moreover have "?s = 1000 * tInterval (tp w)" using m d0 by simp
    ultimately have "calls ?v
        = calls w + invocations (1000 * tStart (tp w)) (tStop (tp w)) (1000 * tInterval (tp w))"
      using c a by simp
    then show ?thesis using invocations_seconds [OF iv] by simp
  qed
  have t: "tStop (tp w) \<le> time_now ?v" by (rule cycle_end_closed [OF pos])
  have h: "tskHandle (tp ?v) = tskHandle (tp w)" by (simp add: cycle_end_tp)
  have dl: "deleted ?v = deleted w" by (rule cycle_end_deleted)
  have res: "taskFunction w =
          Some (Inr (?v\<lparr>deleted := deleted ?v @ [(tskHandle (tp ?v), clock ?v)],
                        tp := (tp ?v)\<lparr>tskHandle := None\<rparr>\<rparr>))"
    using cyc by (simp add: taskFunction_def vTaskDelete_def Let_def)
  from cyc c wait_phase_clock [of w] aligned t h dl res show ?thesis by blast
qed

text \<open>
  A window of 10 s and an interval of 3 s, entered at start with a callback that takes
  no time: calls at 0, 3, 6 and 9 s, and the deletion at 12 s. And the third example
  task: a window of 50 s, an interval of 10 s and a callback that blocks 4800 ms; a
  round takes 14.8 s, so there are four invocations, the "room for 4 SOS signals" of
  the example's comment, and the deletion at 59.2 s.
\<close>

theorem C1_invocation_count_witness:
  "(\<exists>w1. cycles 0
          \<lparr>clock = 0,
           tp = \<lparr>tStart = 0, tStop = 10, tInterval = 3, intervalMultiplier = 1000,
                 tCyclePeriod = 86400, nbrOfCycles = 1, tskHandle = Some 7,
                 callback = Some (Callback 0)\<rparr>,
           calls = 0, sleeps = [], deleted = []\<rparr> = Some (Inr w1)
        \<and> calls w1 = 4 \<and> 10 \<le> time_now w1 \<and> clock w1 = 12000
        \<and> tskHandle (tp w1) = Some 7 \<and> deleted w1 = []
        \<and> taskFunction
          \<lparr>clock = 0,
           tp = \<lparr>tStart = 0, tStop = 10, tInterval = 3, intervalMultiplier = 1000,
                 tCyclePeriod = 86400, nbrOfCycles = 1, tskHandle = Some 7,
                 callback = Some (Callback 0)\<rparr>,
           calls = 0, sleeps = [], deleted = []\<rparr>
          = Some (Inr (w1\<lparr>deleted := [(Some 7, 12000)],
                          tp := (tp w1)\<lparr>tskHandle := None\<rparr>\<rparr>)))
   \<and> (\<exists>w1. cycles 0
          \<lparr>clock = 0,
           tp = \<lparr>tStart = 0, tStop = 50, tInterval = 10, intervalMultiplier = 1000,
                 tCyclePeriod = 120, nbrOfCycles = 1, tskHandle = Some 7,
                 callback = Some (Callback 4800)\<rparr>,
           calls = 0, sleeps = [], deleted = []\<rparr> = Some (Inr w1)
        \<and> calls w1 = 4 \<and> 50 \<le> time_now w1 \<and> clock w1 = 59200
        \<and> tskHandle (tp w1) = Some 7 \<and> deleted w1 = []
        \<and> taskFunction
          \<lparr>clock = 0,
           tp = \<lparr>tStart = 0, tStop = 50, tInterval = 10, intervalMultiplier = 1000,
                 tCyclePeriod = 120, nbrOfCycles = 1, tskHandle = Some 7,
                 callback = Some (Callback 4800)\<rparr>,
           calls = 0, sleeps = [], deleted = []\<rparr>
          = Some (Inr (w1\<lparr>deleted := [(Some 7, 59200)],
                          tp := (tp w1)\<lparr>tskHandle := None\<rparr>\<rparr>)))"
proof -
  let ?a = "\<lparr>clock = 0,
           tp = \<lparr>tStart = 0, tStop = 10, tInterval = 3, intervalMultiplier = 1000,
                 tCyclePeriod = 86400, nbrOfCycles = 1, tskHandle = Some 7,
                 callback = Some (Callback 0)\<rparr>,
           calls = 0, sleeps = [], deleted = []\<rparr>"
  let ?b = "\<lparr>clock = 0,
           tp = \<lparr>tStart = 0, tStop = 50, tInterval = 10, intervalMultiplier = 1000,
                 tCyclePeriod = 120, nbrOfCycles = 1, tskHandle = Some 7,
                 callback = Some (Callback 4800)\<rparr>,
           calls = 0, sleeps = [], deleted = []\<rparr>"
  have ea: "cycles 0 ?a = Some (Inr (cycle_end 0 ?a))"
    using cycles_result [of ?a 0 0 1] by (simp add: step_ms_def)
  have eb: "cycles 0 ?b = Some (Inr (cycle_end 4800 ?b))"
    using cycles_result [of ?b 4800 0 1] by (simp add: step_ms_def)
  have ca: "clock (cycle_end 0 ?a) = 12000" and cb: "clock (cycle_end 4800 ?b) = 59200"
    by (simp_all add: loop_evals)
  from C1_invocation_count [of ?a 0] ea ca have a: "\<exists>w1. cycles 0 ?a = Some (Inr w1)
        \<and> calls w1 = 4 \<and> 10 \<le> time_now w1 \<and> clock w1 = 12000
        \<and> tskHandle (tp w1) = Some 7 \<and> deleted w1 = []
        \<and> taskFunction ?a
          = Some (Inr (w1\<lparr>deleted := [(Some 7, 12000)],
                          tp := (tp w1)\<lparr>tskHandle := None\<rparr>\<rparr>))"
    by (simp add: invocations_def wait_phase_late time_now_def)
  from C1_invocation_count [of ?b 4800] eb cb have b: "\<exists>w1. cycles 0 ?b = Some (Inr w1)
        \<and> calls w1 = 4 \<and> 50 \<le> time_now w1 \<and> clock w1 = 59200
        \<and> tskHandle (tp w1) = Some 7 \<and> deleted w1 = []
        \<and> taskFunction ?b
          = Some (Inr (w1\<lparr>deleted := [(Some 7, 59200)],
                          tp := (tp w1)\<lparr>tskHandle := None\<rparr>\<rparr>))"
    by (simp add: invocations_def wait_phase_late time_now_def)
  from a b show ?thesis by (rule conjI)
qed

text \<open>
  C1 as stated fails for a window of 10 s and an interval of 2 s, entered at its start
  with the default multiplier and a callback that takes no time: the callback is invoked
  at 0, 2, 4, 6 and 8 s, five times; at 10 s the window is closed and the task deleted. The formula of the
  claim gives 1 with the product \<open>1000 * 2\<close>, and 6 if the divisor is read as 2 seconds.
\<close>

theorem C1_formula_counterexample:
  "taskFunction
     \<lparr>clock = 0,
      tp = \<lparr>tStart = 0, tStop = 10, tInterval = 2, intervalMultiplier = 1000,
            tCyclePeriod = 86400, nbrOfCycles = 1, tskHandle = Some 7,
            callback = Some (Callback 0)\<rparr>,
      calls = 0, sleeps = [], deleted = []\<rparr>
   = Some (Inr
     \<lparr>clock = 10000,
      tp = \<lparr>tStart = 86400, tStop = 86410, tInterval = 2, intervalMultiplier = 1000,
            tCyclePeriod = 86400, nbrOfCycles = 1, tskHandle = None,
            callback = Some (Callback 0)\<rparr>,
      calls = 5, sleeps = replicate 5 2000, deleted = [(Some 7, 10000)]\<rparr>)
   \<and> (10 - 0) div (1000 * 2) + 1 = (1 :: int)
   \<and> (10 - 0) div 2 + 1 = (6 :: int)"
proof -
  let ?w = "\<lparr>clock = 0,
      tp = \<lparr>tStart = 0, tStop = 10, tInterval = 2, intervalMultiplier = 1000,
            tCyclePeriod = 86400, nbrOfCycles = 1, tskHandle = Some 7,
            callback = Some (Callback 0)\<rparr>,
      calls = 0, sleeps = [], deleted = []\<rparr>"
  have "taskFunction ?w = Some (Inr (task_end ((cycle_end 0 ^^ unat (nbrOfCycles (tp ?w))) ?w)))"
    by (rule taskFunction_result) (simp_all add: step_ms_def)
  then show ?thesis by (simp add: loop_evals)
qed

text \<open>
  C2 (as amended). A cycle entered with a callback that blocks \<open>d\<close> ms and a round of
  positive duration ends, and the next cycle starts from its result. There
  \<open>start = start_actual + cyclePeriod\<close>, \<open>start_actual\<close> being the seconds read when
  the wait phase ended, which is the later of \<open>start\<close> and \<open>now()\<close> at the cycle's
  entry, and \<open>stop\<close> is the old \<open>stop + cyclePeriod\<close>; so the new width is the old
  \<open>stop - start_actual\<close>. It is the old width when the cycle was entered no later
  than its start (\<open>now() \<le> start\<close>).
\<close>

theorem C2_window_advance:
  assumes cb: "callback (tp w) = Some (Callback d)" and pos: "0 < step_ms d (tp w)"
  shows "\<exists>w'. cycle_body w = Some (Inr w')
      \<and> (n < nbrOfCycles (tp w) \<longrightarrow> cycles n w = cycles (n + 1) w')
      \<and> time_now (wait_phase w) = max (tStart (tp w)) (time_now w)
      \<and> tStart (tp w') = time_now (wait_phase w) + tCyclePeriod (tp w)
      \<and> tStop (tp w') = tStop (tp w) + tCyclePeriod (tp w)
      \<and> tCyclePeriod (tp w') = tCyclePeriod (tp w)
      \<and> tStop (tp w') - tStart (tp w') = tStop (tp w) - max (tStart (tp w)) (time_now w)
      \<and> (time_now w \<le> tStart (tp w)
           \<longrightarrow> tStop (tp w') - tStart (tp w') = tStop (tp w) - tStart (tp w))"
proof -
  let ?v = "cycle_end d w"
  have b: "cycle_body w = Some (Inr ?v)" by (rule cycle_body_result [OF cb pos])
  have c: "n < nbrOfCycles (tp w) \<longrightarrow> cycles n w = cycles (n + 1) ?v"
    using cycles_step [OF _ cb pos] by simp
  have a: "time_now (wait_phase w) = max (tStart (tp w)) (time_now w)"
    by (rule wait_phase_time)
  have s: "tStart (tp ?v) = time_now (wait_phase w) + tCyclePeriod (tp w)"
    and e: "tStop (tp ?v) = tStop (tp w) + tCyclePeriod (tp w)"
    and p: "tCyclePeriod (tp ?v) = tCyclePeriod (tp w)"
    by (simp_all add: cycle_end_tp)
  have wd: "tStop (tp ?v) - tStart (tp ?v) = tStop (tp w) - max (tStart (tp w)) (time_now w)"
    using s e a by simp
  have "tStop (tp ?v) - tStart (tp ?v) = tStop (tp w) - tStart (tp w)"
    if "time_now w \<le> tStart (tp w)"
    using wd that by simp
  with b c a s e p wd show ?thesis by blast
qed

text \<open>Three cycles of 10 s every 30 s, entered at the start of the first.\<close>

theorem C2_window_advance_witness:
  "\<exists>w'. cycle_body
          \<lparr>clock = 0,
           tp = \<lparr>tStart = 0, tStop = 10, tInterval = 2, intervalMultiplier = 1000,
                 tCyclePeriod = 30, nbrOfCycles = 3, tskHandle = Some 7,
                 callback = Some (Callback 0)\<rparr>,
           calls = 0, sleeps = [], deleted = []\<rparr> = Some (Inr w')
        \<and> cycles 0
          \<lparr>clock = 0,
           tp = \<lparr>tStart = 0, tStop = 10, tInterval = 2, intervalMultiplier = 1000,
                 tCyclePeriod = 30, nbrOfCycles = 3, tskHandle = Some 7,
                 callback = Some (Callback 0)\<rparr>,
           calls = 0, sleeps = [], deleted = []\<rparr> = cycles 1 w'
        \<and> tStart (tp w') = 30 \<and> tStop (tp w') = 40
        \<and> tStop (tp w') - tStart (tp w') = 10 - 0"
  using C2_window_advance [of
      "\<lparr>clock = 0,
        tp = \<lparr>tStart = 0, tStop = 10, tInterval = 2, intervalMultiplier = 1000,
              tCyclePeriod = 30, nbrOfCycles = 3, tskHandle = Some 7,
              callback = Some (Callback 0)\<rparr>,
        calls = 0, sleeps = [], deleted = []\<rparr>" 0 0]
  by (simp add: loop_evals) blast

text \<open>
  C2 as stated fails when a cycle is entered late. The same three cycles, entered one
  second after start: the first cycle re-anchors start to 1, so the second cycle begins
  with start = 31 and stop = 40, a width of 9 instead of 10.
\<close>

theorem C2_late_start_counterexample:
  "cycle_body
     \<lparr>clock = 1000,
      tp = \<lparr>tStart = 0, tStop = 10, tInterval = 2, intervalMultiplier = 1000,
            tCyclePeriod = 30, nbrOfCycles = 3, tskHandle = Some 7,
            callback = Some (Callback 0)\<rparr>,
      calls = 0, sleeps = [], deleted = []\<rparr>
   = Some (Inr
     \<lparr>clock = 11000,
      tp = \<lparr>tStart = 31, tStop = 40, tInterval = 2, intervalMultiplier = 1000,
            tCyclePeriod = 30, nbrOfCycles = 3, tskHandle = Some 7,
            callback = Some (Callback 0)\<rparr>,
      calls = 5, sleeps = replicate 5 2000, deleted = []\<rparr>)
   \<and> (40 :: int) - 31 \<noteq> 10 - 0"
proof -
  let ?w = "\<lparr>clock = 1000,
      tp = \<lparr>tStart = 0, tStop = 10, tInterval = 2, intervalMultiplier = 1000,
            tCyclePeriod = 30, nbrOfCycles = 3, tskHandle = Some 7,
            callback = Some (Callback 0)\<rparr>,
      calls = 0, sleeps = [], deleted = []\<rparr>"
  have "cycle_body ?w = Some (Inr (cycle_end 0 ?w))"
    by (rule cycle_body_result) (simp_all add: step_ms_def)
  then show ?thesis by (simp add: loop_evals)
qed





text \<open>
  C10. With cycleCount = 0 the task function returns the state it was given, but for the
  handle, which it has passed to \<^verbatim>\<open>vTaskDelete\<close>, at the clock it was entered with,
  and cleared: no invocation, no delay, the clock, start and stop as they were.
\<close>

theorem C10_zero_cycles:
  assumes "nbrOfCycles (tp w) = 0"
  shows "taskFunction w =
           Some (Inr (w\<lparr>deleted := deleted w @ [(tskHandle (tp w), clock w)],
                        tp := (tp w)\<lparr>tskHandle := None\<rparr>\<rparr>))"
proof -
  have "cycles 0 w = Some (Inr w)" using assms by (simp add: cycles_done)
  then show ?thesis by (simp add: taskFunction_def vTaskDelete_def Let_def)
qed

text \<open>A task with a window and a callback, and no cycle to run.\<close>

theorem C10_zero_cycles_witness:
  "taskFunction
     \<lparr>clock = 4000,
      tp = \<lparr>tStart = 0, tStop = 10, tInterval = 2, intervalMultiplier = 1000,
            tCyclePeriod = 30, nbrOfCycles = 0, tskHandle = Some 7,
            callback = Some (Callback 0)\<rparr>,
      calls = 0, sleeps = [], deleted = []\<rparr>
   = Some (Inr
     \<lparr>clock = 4000,
      tp = \<lparr>tStart = 0, tStop = 10, tInterval = 2, intervalMultiplier = 1000,
            tCyclePeriod = 30, nbrOfCycles = 0, tskHandle = None,
            callback = Some (Callback 0)\<rparr>,
      calls = 0, sleeps = [], deleted = [(Some 7, 4000)]\<rparr>)"
  using C10_zero_cycles [of
      "\<lparr>clock = 4000,
        tp = \<lparr>tStart = 0, tStop = 10, tInterval = 2, intervalMultiplier = 1000,
              tCyclePeriod = 30, nbrOfCycles = 0, tskHandle = Some 7,
              callback = Some (Callback 0)\<rparr>,
        calls = 0, sleeps = [], deleted = []\<rparr>"]
  by simp

end
